theory Spec2Isabelle
  imports Complex_Main
begin

section \<open>JavaScript values used by the engine\<close>

text \<open>
  The readings are JavaScript numbers. A comparison of a double with one of the integer
  thresholds of the engine is exact, so a number is modelled as a real, together with
  \<open>NaN\<close>, on which every comparison is false. The infinities order like numbers beyond
  every threshold and are not given constructors of their own.
\<close>

datatype number = NaN | Number real

fun js_lt :: "number \<Rightarrow> number \<Rightarrow> bool" where
  "js_lt (Number a) (Number b) = (a < b)"
| "js_lt _ _ = False"

fun js_gt :: "number \<Rightarrow> number \<Rightarrow> bool" where
  "js_gt (Number a) (Number b) = (a > b)"
| "js_gt _ _ = False"

fun js_ge :: "number \<Rightarrow> number \<Rightarrow> bool" where
  "js_ge (Number a) (Number b) = (a \<ge> b)"
| "js_ge _ _ = False"

fun js_le :: "number \<Rightarrow> number \<Rightarrow> bool" where
  "js_le (Number a) (Number b) = (a \<le> b)"
| "js_le _ _ = False"

text \<open>Truthiness of a number (\<open>0\<close>, \<open>-0\<close> and \<open>NaN\<close> are falsy) and \<open>x || y\<close>.\<close>

fun truthy :: "number \<Rightarrow> bool" where
  "truthy NaN = False"
| "truthy (Number a) = (a \<noteq> 0)"

definition js_or :: "number \<Rightarrow> number \<Rightarrow> number" where
  "js_or x y = (if truthy x then x else y)"

section \<open>The risk engine (the \<open>risk\<close> memo of the App component)\<close>

datatype level = Low | Moderate | High | Extreme

record risk_assessment =
  level :: level
  color :: string
  bgColor :: string
  advice :: "string list"
  triggers :: "string list"

text \<open>
  The fields of \<open>WeatherData\<close> that \<open>risk\<close> reads: \<open>data.current.main.temp\<close>,
  \<open>data.current.main.humidity\<close>, \<open>data.current.wind.speed\<close> and, for every entry of
  \<open>data.aqi.list\<close>, its \<open>main.aqi\<close>.
\<close>

record weather_data =
  current_main_temp :: number
  current_main_humidity :: number
  current_wind_speed :: number
  aqi_list :: "number list"

text \<open>\<open>data.aqi.list[0]?.main.aqi || 1\<close>: an empty list gives \<open>undefined\<close>, which is falsy.\<close>

definition current_aqi :: "weather_data \<Rightarrow> number" where
  "current_aqi data =
     (case aqi_list data of [] \<Rightarrow> Number 1 | x # _ \<Rightarrow> js_or x (Number 1))"

text \<open>The advice texts of the body, named so that the steps below stay readable.\<close>

definition ADVICE_POOR_AIR :: string where
  "ADVICE_POOR_AIR =
     ''Air quality is very poor. Avoid all outdoor activities and keep windows closed.''"

definition ADVICE_MODERATE_AIR :: string where
  "ADVICE_MODERATE_AIR =
     ''Air quality is moderate. Sensitive individuals should limit prolonged outdoor exertion.''"

definition ADVICE_COLD :: string where
  "ADVICE_COLD =
     ''Cold air can trigger bronchospasm. Wear a scarf to warm the air you breathe.''"

definition ADVICE_HEAT :: string where
  "ADVICE_HEAT =
     ''High heat can increase ozone levels. Stay in air-conditioned spaces.''"

definition ADVICE_HUMIDITY :: string where
  "ADVICE_HUMIDITY =
     ''High humidity can harbor mold and dust mites. Use a dehumidifier.''"

definition ADVICE_WIND :: string where
  "ADVICE_WIND =
     ''Wind can stir up pollen and dust. Keep windows closed.''"

definition ADVICE_STABLE :: string where
  "ADVICE_STABLE =
     ''Conditions are currently stable. Enjoy your day but keep your rescue inhaler nearby.''"

text \<open>
  The mutable locals of the body, \<open>(score, advice, triggers)\<close>. Each \<open>if\<close> statement of
  the body is one step on them; \<open>push\<close> appends at the end.
\<close>

type_synonym locals = "nat \<times> string list \<times> string list"

definition aqi_step :: "number \<Rightarrow> locals \<Rightarrow> locals" where
  "aqi_step aqi = (\<lambda>(score, advice, triggers).
     if js_ge aqi (Number 4) then
       (score + 3,
        advice @ [ADVICE_POOR_AIR],
        triggers @ [''Poor Air Quality''])
     else if js_ge aqi (Number 3) then
       (score + 2,
        advice @ [ADVICE_MODERATE_AIR],
        triggers @ [''Moderate Air Pollution''])
     else (score, advice, triggers))"

definition temp_step :: "number \<Rightarrow> locals \<Rightarrow> locals" where
  "temp_step temp = (\<lambda>(score, advice, triggers).
     if js_lt temp (Number 10) then
       (score + 2,
        advice @ [ADVICE_COLD],
        triggers @ [''Cold Air''])
     else if js_gt temp (Number 32) then
       (score + 1,
        advice @ [ADVICE_HEAT],
        triggers @ [''Extreme Heat''])
     else (score, advice, triggers))"

definition humidity_step :: "number \<Rightarrow> locals \<Rightarrow> locals" where
  "humidity_step humidity = (\<lambda>(score, advice, triggers).
     if js_gt humidity (Number 75) then
       (score + 2,
        advice @ [ADVICE_HUMIDITY],
        triggers @ [''High Humidity''])
     else (score, advice, triggers))"

definition wind_step :: "number \<Rightarrow> locals \<Rightarrow> locals" where
  "wind_step windSpeed = (\<lambda>(score, advice, triggers).
     if js_gt windSpeed (Number 10) then
       (score + 1,
        advice @ [ADVICE_WIND],
        triggers @ [''High Wind (Allergens)''])
     else (score, advice, triggers))"

text \<open>The locals when the body reaches its \<open>return\<close> statements.\<close>

definition risk_locals :: "weather_data \<Rightarrow> locals" where
  "risk_locals data =
     (let temp = current_main_temp data;
          humidity = current_main_humidity data;
          windSpeed = current_wind_speed data;
          aqi = current_aqi data
      in wind_step windSpeed (humidity_step humidity (temp_step temp (aqi_step aqi (0, [], [])))))"

definition risk_score :: "weather_data \<Rightarrow> nat" where
  "risk_score data = fst (risk_locals data)"

text \<open>\<open>risk\<close> itself; \<open>data\<close> is \<open>WeatherData | null\<close>.\<close>

definition risk :: "weather_data option \<Rightarrow> risk_assessment" where
  "risk data =
     (case data of
        None \<Rightarrow>
          \<lparr>level = Low, color = ''text-emerald-500'', bgColor = ''bg-emerald-50'',
           advice = [], triggers = []\<rparr>
      | Some d \<Rightarrow>
          (let (score, advice, triggers) = risk_locals d in
             if score \<ge> 5 then
               \<lparr>level = Extreme, color = ''text-rose-600'', bgColor = ''bg-rose-50'',
                advice = advice, triggers = triggers\<rparr>
             else if score \<ge> 3 then
               \<lparr>level = High, color = ''text-orange-500'', bgColor = ''bg-orange-50'',
                advice = advice, triggers = triggers\<rparr>
             else if score \<ge> 1 then
               \<lparr>level = Moderate, color = ''text-amber-500'', bgColor = ''bg-amber-50'',
                advice = advice, triggers = triggers\<rparr>
             else
               \<lparr>level = Low, color = ''text-emerald-500'', bgColor = ''bg-emerald-50'',
                advice = [ADVICE_STABLE],
                triggers = [''None detected'']\<rparr>))"

subsection \<open>The scoring table of the specification\<close>

text \<open>
  The specification describes the engine on a snapshot by a table of rows (condition,
  score delta, trigger label, advice), evaluated in order. The definitions of this
  subsection follow the specification's words; the advice texts, which the specification
  leaves as ``fixed per-row text'', are those of the code.
\<close>

record snapshot =
  temperatureC :: number
  humidityPct :: number
  windSpeedMps :: number
  airQualityIndex :: number

text \<open>
  The snapshot a data object holds: its readings as they stand, the AQI being that of the
  first entry of the list; a missing AQI (no entry) is treated as 1, the specification's
  policy.
\<close>

definition snapshot_of :: "weather_data \<Rightarrow> snapshot" where
  "snapshot_of data =
     \<lparr>temperatureC = current_main_temp data,
      humidityPct = current_main_humidity data,
      windSpeedMps = current_wind_speed data,
      airQualityIndex = (case aqi_list data of [] \<Rightarrow> Number 1 | x # rest \<Rightarrow> x)\<rparr>"

text \<open>
  The conditions of the table, read on their own: a reading is at least, below or above a
  threshold only when it is a number.
\<close>

fun at_least :: "number \<Rightarrow> real \<Rightarrow> bool" where
  "at_least NaN r = False"
| "at_least (Number x) r = (r \<le> x)"

fun below :: "number \<Rightarrow> real \<Rightarrow> bool" where
  "below NaN r = False"
| "below (Number x) r = (x < r)"

fun above :: "number \<Rightarrow> real \<Rightarrow> bool" where
  "above NaN r = False"
| "above (Number x) r = (r < x)"

type_synonym table_row = "(snapshot \<Rightarrow> bool) \<times> nat \<times> string \<times> string"

definition spec_table :: "table_row list" where
  "spec_table =
     [(\<lambda>s. at_least (airQualityIndex s) 4, 3, ''Poor Air Quality'',
         ADVICE_POOR_AIR),
      (\<lambda>s. at_least (airQualityIndex s) 3 \<and> below (airQualityIndex s) 4, 2,
         ''Moderate Air Pollution'',
         ADVICE_MODERATE_AIR),
      (\<lambda>s. below (temperatureC s) 10, 2, ''Cold Air'',
         ADVICE_COLD),
      (\<lambda>s. above (temperatureC s) 32, 1, ''Extreme Heat'',
         ADVICE_HEAT),
      (\<lambda>s. above (humidityPct s) 75, 2, ''High Humidity'',
         ADVICE_HUMIDITY),
      (\<lambda>s. above (windSpeedMps s) 10, 1, ''High Wind (Allergens)'',
         ADVICE_WIND)]"

definition matched_rows :: "snapshot \<Rightarrow> table_row list" where
  "matched_rows s = filter (\<lambda>(cond, delta, label, text). cond s) spec_table"

definition spec_score :: "snapshot \<Rightarrow> nat" where
  "spec_score s = sum_list (map (\<lambda>(cond, delta, label, text). delta) (matched_rows s))"

definition spec_triggers :: "snapshot \<Rightarrow> string list" where
  "spec_triggers s = map (\<lambda>(cond, delta, label, text). label) (matched_rows s)"

definition spec_advice :: "snapshot \<Rightarrow> string list" where
  "spec_advice s = map (\<lambda>(cond, delta, label, text). text) (matched_rows s)"

definition spec_level :: "nat \<Rightarrow> level" where
  "spec_level score =
     (if score \<ge> 5 then Extreme else if score \<ge> 3 then High
      else if score \<ge> 1 then Moderate else Low)"

text \<open>An order on the levels, to state that a level does not decrease.\<close>

fun level_rank :: "level \<Rightarrow> nat" where
  "level_rank Low = 0"
| "level_rank Moderate = 1"
| "level_rank High = 2"
| "level_rank Extreme = 3"

section \<open>The subscription store and the API routes (\<open>src/api.ts\<close>)\<close>

subsection \<open>Strings and the email pattern\<close>

text \<open>
  A JavaScript string is a sequence of UTF-16 code units; \<open>str\<close> embeds an ASCII literal.
\<close>

type_synonym jsstring = "nat list"

definition str :: "string \<Rightarrow> jsstring" where
  "str s = map of_char s"

text \<open>The class \<open>\s\<close> of a regular expression without the \<open>u\<close> flag, by code unit.\<close>

definition is_space :: "nat \<Rightarrow> bool" where
  "is_space c \<longleftrightarrow>
     c \<in> set [9, 10, 11, 12, 13, 32, 160, 5760, 8232, 8233, 8239, 8287, 12288, 65279]
     \<or> (8192 \<le> c \<and> c \<le> 8202)"

text \<open>The class \<open>[^\s@]\<close>.\<close>

definition not_space_at :: "nat \<Rightarrow> bool" where
  "not_space_at c \<longleftrightarrow> \<not> is_space c \<and> c \<noteq> 64"

text \<open>
  A backtracking matcher in continuation style: \<open>plus_then cls k\<close> matches one or more
  code units of \<open>cls\<close> and then \<open>k\<close>; \<open>lit_then x k\<close> matches the code unit \<open>x\<close> and then
  \<open>k\<close>; \<open>at_end\<close> is \<open>$\<close> (no \<open>m\<close> flag). The pattern is anchored by \<open>^\<close>, so the match
  starts at the first code unit.
\<close>

fun plus_then :: "(nat \<Rightarrow> bool) \<Rightarrow> (jsstring \<Rightarrow> bool) \<Rightarrow> jsstring \<Rightarrow> bool" where
  "plus_then cls k [] = False"
| "plus_then cls k (c # cs) = (cls c \<and> (k cs \<or> plus_then cls k cs))"

fun lit_then :: "nat \<Rightarrow> (jsstring \<Rightarrow> bool) \<Rightarrow> jsstring \<Rightarrow> bool" where
  "lit_then x k [] = False"
| "lit_then x k (c # cs) = (c = x \<and> k cs)"

definition at_end :: "jsstring \<Rightarrow> bool" where
  "at_end s \<longleftrightarrow> s = []"

text \<open>\<open>emailRegex.test(s)\<close> for \<open>/^[^\s@]+@[^\s@]+\.[^\s@]+$/\<close>.\<close>

definition emailRegex_test :: "jsstring \<Rightarrow> bool" where
  "emailRegex_test s =
     plus_then not_space_at
       (lit_then 64 (plus_then not_space_at (lit_then 46 (plus_then not_space_at at_end)))) s"

text \<open>\<open>s.includes(sub)\<close>.\<close>

fun starts_with :: "jsstring \<Rightarrow> jsstring \<Rightarrow> bool" where
  "starts_with s [] = True"
| "starts_with [] (p # ps) = False"
| "starts_with (c # cs) (p # ps) = (c = p \<and> starts_with cs ps)"

fun js_includes :: "jsstring \<Rightarrow> jsstring \<Rightarrow> bool" where
  "js_includes [] sub = (sub = [])"
| "js_includes (c # cs) sub = (starts_with (c # cs) sub \<or> js_includes cs sub)"

subsection \<open>The process state\<close>

text \<open>
  A row of the table \<open>subscriptions\<close>, keyed by its primary key \<open>email\<close>. The column
  \<open>created_at\<close> holds the clock's time of the insertion and is left out.
\<close>

record subscription_row =
  auto_notify :: bool
  last_notified_at :: "nat option"

text \<open>
  What \<open>resend.emails.send\<close> answers: \<open>{data}\<close>, \<open>{error}\<close> with the provider's message,
  or an exception.
\<close>

datatype send_result = Send_data jsstring | Send_error jsstring | Send_throws

record mail =
  mail_from :: jsstring
  mail_to :: "jsstring list"
  mail_subject :: jsstring
  mail_html :: jsstring

text \<open>
  The state the routes run in: the environment (\<open>POSTGRES_URL\<close> set or not, the SQLite
  handle \<open>localDb\<close> non-null or not, the \<open>resend\<close> client non-null or not, \<open>EMAIL_FROM\<close>),
  the table of the database in use, and the two collaborators' behaviour: whether a
  statement sent to the database throws, and what the mail provider answers. \<open>outbox\<close>
  records every call of \<open>resend.emails.send\<close>, oldest first.
\<close>

record world =
  POSTGRES_URL :: bool
  localDb :: bool
  resend :: bool
  EMAIL_FROM :: "jsstring option"
  subscriptions :: "jsstring \<rightharpoonup> subscription_row"
  driver_throws :: bool
  provider_answer :: send_result
  outbox :: "mail list"

datatype exn = DbError

subsection \<open>The database helpers\<close>

text \<open>
  A string bound to a statement reaches the database as UTF-8 text: a high surrogate
  followed by a low surrogate is one character, and a surrogate without its partner is
  replaced by U+FFFD. \<open>stored_text\<close> is that text, in code units again. The table is keyed
  by the stored text of the column \<open>email\<close>, compared exactly (no case folding).
\<close>

definition is_high_surrogate :: "nat \<Rightarrow> bool" where
  "is_high_surrogate c \<longleftrightarrow> 55296 \<le> c \<and> c \<le> 56319"

definition is_low_surrogate :: "nat \<Rightarrow> bool" where
  "is_low_surrogate c \<longleftrightarrow> 56320 \<le> c \<and> c \<le> 57343"

fun stored_text :: "jsstring \<Rightarrow> jsstring" where
  "stored_text [] = []"
| "stored_text [c] = (if is_high_surrogate c \<or> is_low_surrogate c then [65533] else [c])"
| "stored_text (c # c' # cs) =
     (if is_high_surrogate c \<and> is_low_surrogate c' then c # c' # stored_text cs
      else if is_high_surrogate c \<or> is_low_surrogate c then 65533 # stored_text (c' # cs)
      else c # stored_text (c' # cs))"

text \<open>\<open>SELECT * FROM subscriptions WHERE email = ?\<close>: the row, or none.\<close>

definition sql_select ::
  "(jsstring \<rightharpoonup> subscription_row) \<Rightarrow> jsstring \<Rightarrow> subscription_row option" where
  "sql_select tbl email = tbl (stored_text email)"

text \<open>
  \<open>INSERT INTO subscriptions (email, auto_notify) VALUES (?, ?) ON CONFLICT (email) DO
  UPDATE SET auto_notify = ...\<close>: a new row has no \<open>last_notified_at\<close>; an existing row
  keeps its other columns.
\<close>

definition sql_upsert ::
  "(jsstring \<rightharpoonup> subscription_row) \<Rightarrow> jsstring \<Rightarrow> bool \<Rightarrow> (jsstring \<rightharpoonup> subscription_row)" where
  "sql_upsert tbl email autoNotify =
     tbl(stored_text email \<mapsto>
       (case tbl (stored_text email) of
          None \<Rightarrow> \<lparr>auto_notify = autoNotify, last_notified_at = None\<rparr>
        | Some row \<Rightarrow> row\<lparr>auto_notify := autoNotify\<rparr>))"

text \<open>\<open>DELETE FROM subscriptions WHERE email = ?\<close>.\<close>

definition sql_delete ::
  "(jsstring \<rightharpoonup> subscription_row) \<Rightarrow> jsstring \<Rightarrow> (jsstring \<rightharpoonup> subscription_row)" where
  "sql_delete tbl email = tbl(stored_text email := None)"

text \<open>
  \<open>getSubscription\<close>: with Postgres a read error is caught and gives \<open>null\<close>; with SQLite
  it propagates to the caller; with neither (``Mock'') the answer is \<open>null\<close>.
\<close>

definition getSubscription :: "world \<Rightarrow> jsstring \<Rightarrow> exn + subscription_row option" where
  "getSubscription w email =
     (if POSTGRES_URL w then
        (if driver_throws w then Inr None else Inr (sql_select (subscriptions w) email))
      else if localDb w then
        (if driver_throws w then Inl DbError else Inr (sql_select (subscriptions w) email))
      else Inr None)"

text \<open>
  \<open>upsertSubscription\<close>: with Postgres a write error is caught and logged; with SQLite it
  propagates; with neither nothing is written.
\<close>

definition upsertSubscription :: "world \<Rightarrow> jsstring \<Rightarrow> bool \<Rightarrow> exn + world" where
  "upsertSubscription w email autoNotify =
     (if POSTGRES_URL w then
        (if driver_throws w then Inr w
         else Inr (w\<lparr>subscriptions := sql_upsert (subscriptions w) email autoNotify\<rparr>))
      else if localDb w then
        (if driver_throws w then Inl DbError
         else Inr (w\<lparr>subscriptions := sql_upsert (subscriptions w) email autoNotify\<rparr>))
      else Inr w)"

text \<open>\<open>deleteSubscription\<close>: no \<open>try\<close> of its own; with neither database nothing happens.\<close>

definition deleteSubscription :: "world \<Rightarrow> jsstring \<Rightarrow> exn + world" where
  "deleteSubscription w email =
     (if POSTGRES_URL w then
        (if driver_throws w then Inl DbError
         else Inr (w\<lparr>subscriptions := sql_delete (subscriptions w) email\<rparr>))
      else if localDb w then
        (if driver_throws w then Inl DbError
         else Inr (w\<lparr>subscriptions := sql_delete (subscriptions w) email\<rparr>))
      else Inr w)"

subsection \<open>The routes\<close>

text \<open>
  The JSON bodies the routes send: \<open>{error}\<close>; \<open>{subscribed, autoNotify, error?}\<close>;
  \<open>{success: true, message, simulated?}\<close> (the flag says whether \<open>simulated: true\<close> is
  present); \<open>{success: true, data}\<close>.
\<close>

datatype body =
    Error_json jsstring
  | Subscription_json bool bool "jsstring option"
  | Success_message_json jsstring bool
  | Success_data_json jsstring

record response =
  status :: nat
  body :: body

text \<open>\<open>api.get("/subscription/:email")\<close>.\<close>

definition get_subscription :: "world \<Rightarrow> jsstring \<Rightarrow> response" where
  "get_subscription w email =
     (case getSubscription w email of
        Inr row \<Rightarrow>
          \<lparr>status = 200,
           body = Subscription_json (row \<noteq> None)
                    (case row of Some r \<Rightarrow> auto_notify r | None \<Rightarrow> False) None\<rparr>
      | Inl err \<Rightarrow>
          \<lparr>status = 200,
           body = Subscription_json False False (Some (str ''Database unavailable''))\<rparr>)"

text \<open>\<open>api.post("/unsubscribe")\<close>, with the body's \<open>email\<close>.\<close>

definition post_unsubscribe :: "world \<Rightarrow> jsstring \<Rightarrow> response \<times> world" where
  "post_unsubscribe w email =
     (case deleteSubscription w email of
        Inr w' \<Rightarrow>
          (\<lparr>status = 200, body = Success_message_json (str ''Unsubscribed successfully'') False\<rparr>,
           w')
      | Inl err \<Rightarrow> (\<lparr>status = 500, body = Error_json (str ''Database error'')\<rparr>, w))"

text \<open>The body of a request to \<open>api.post("/notify")\<close>; \<open>toEmail\<close> may be absent.\<close>

record notify_body =
  message :: jsstring
  subject :: jsstring
  toEmail :: "jsstring option"
  saveEmail :: bool
  autoNotify :: bool

text \<open>\<open>process.env.EMAIL_FROM || "AsthmaGuard <onboarding@resend.dev>"\<close>.\<close>

definition fromEmail :: "world \<Rightarrow> jsstring" where
  "fromEmail w =
     (case EMAIL_FROM w of
        None \<Rightarrow> str ''AsthmaGuard <onboarding@resend.dev>''
      | Some a \<Rightarrow> if a = [] then str ''AsthmaGuard <onboarding@resend.dev>'' else a)"

text \<open>The part of the handler after the validation of \<open>toEmail\<close>.\<close>

definition notify_valid :: "world \<Rightarrow> notify_body \<Rightarrow> jsstring \<Rightarrow> response \<times> world" where
  "notify_valid w b email =
     (let w1 = (if saveEmail b then
                  (case upsertSubscription w email (autoNotify b) of
                     Inr w' \<Rightarrow> w'
                   | Inl err \<Rightarrow> w)
                else w)
      in if \<not> resend w1 then
           (\<lparr>status = 200,
             body = Success_message_json
                      (str ''Notification simulated (RESEND_API_KEY missing)'') True\<rparr>,
            w1)
         else
           (let w2 = w1\<lparr>outbox := outbox w1 @
                        [\<lparr>mail_from = fromEmail w1, mail_to = [email],
                          mail_subject = subject b, mail_html = message b\<rparr>]\<rparr>
            in case provider_answer w2 of
                 Send_throws \<Rightarrow>
                   (\<lparr>status = 500, body = Error_json (str ''Internal server error'')\<rparr>, w2)
               | Send_error msg \<Rightarrow>
                   if js_includes msg (str ''onboarding'') then
                     (\<lparr>status = 403,
                       body = Error_json (str ''Resend Onboarding Limit: You can only send emails to your own verified address while in onboarding mode.'')\<rparr>,
                      w2)
                   else
                     (\<lparr>status = 500,
                       body = Error_json (if msg = [] then str ''Failed to send email'' else msg)\<rparr>,
                      w2)
               | Send_data d \<Rightarrow> (\<lparr>status = 200, body = Success_data_json d\<rparr>, w2)))"

text \<open>\<open>api.post("/notify")\<close>: \<open>!toEmail || !emailRegex.test(toEmail)\<close> answers 400 first.\<close>

definition post_notify :: "world \<Rightarrow> notify_body \<Rightarrow> response \<times> world" where
  "post_notify w b =
     (case toEmail b of
        None \<Rightarrow>
          (\<lparr>status = 400, body = Error_json (str ''Please provide a valid email address.'')\<rparr>, w)
      | Some email \<Rightarrow>
          if email = [] \<or> \<not> emailRegex_test email then
            (\<lparr>status = 400, body = Error_json (str ''Please provide a valid email address.'')\<rparr>, w)
          else notify_valid w b email)"

text \<open>
  Two states used in the examples: a server with the local SQLite database and an empty
  table, and one with no database at all (``Mock''); neither has a mail key.
\<close>

definition sqlite_world :: world where
  "sqlite_world =
     \<lparr>POSTGRES_URL = False, localDb = True, resend = False, EMAIL_FROM = None,
      subscriptions = Map.empty, driver_throws = False, provider_answer = Send_throws,
      outbox = []\<rparr>"


section \<open>Properties of the risk engine\<close>

lemmas step_defs = aqi_step_def temp_step_def humidity_step_def wind_step_def

lemmas table_defs = spec_table_def matched_rows_def spec_score_def spec_triggers_def
  spec_advice_def snapshot_of_def

text \<open>The locals at the \<open>return\<close> statements are what the table gives, list for list.\<close>

lemma risk_locals_table:
  "risk_locals d =
     (spec_score (snapshot_of d), spec_advice (snapshot_of d), spec_triggers (snapshot_of d))"
proof (cases "aqi_list d")
  case Nil
  then show ?thesis
    by (cases "current_main_temp d"; cases "current_main_humidity d";
        cases "current_wind_speed d")
       (simp_all add: risk_locals_def current_aqi_def step_defs table_defs)
next
  case (Cons a rest)
  then show ?thesis
    by (cases a; cases "current_main_temp d"; cases "current_main_humidity d";
        cases "current_wind_speed d")
       (simp_all add: risk_locals_def current_aqi_def js_or_def step_defs table_defs)
qed

lemma risk_Some:
  "risk (Some d) =
     (if risk_score d \<ge> 5 then
        \<lparr>level = Extreme, color = ''text-rose-600'', bgColor = ''bg-rose-50'',
         advice = fst (snd (risk_locals d)), triggers = snd (snd (risk_locals d))\<rparr>
      else if risk_score d \<ge> 3 then
        \<lparr>level = High, color = ''text-orange-500'', bgColor = ''bg-orange-50'',
         advice = fst (snd (risk_locals d)), triggers = snd (snd (risk_locals d))\<rparr>
      else if risk_score d \<ge> 1 then
        \<lparr>level = Moderate, color = ''text-amber-500'', bgColor = ''bg-amber-50'',
         advice = fst (snd (risk_locals d)), triggers = snd (snd (risk_locals d))\<rparr>
      else
        \<lparr>level = Low, color = ''text-emerald-500'', bgColor = ''bg-emerald-50'',
         advice = [ADVICE_STABLE], triggers = [''None detected'']\<rparr>)"
  by (simp add: risk_def risk_score_def split: prod.splits)

lemma risk_level: "level (risk (Some d)) = spec_level (risk_score d)"
  by (simp add: risk_Some spec_level_def)

text \<open>The score is the sum of what each of the four statements adds on its own.\<close>

lemma risk_score_sum:
  "risk_score d =
     fst (aqi_step (current_aqi d) (0, [], []))
     + fst (temp_step (current_main_temp d) (0, [], []))
     + fst (humidity_step (current_main_humidity d) (0, [], []))
     + fst (wind_step (current_wind_speed d) (0, [], []))"
  by (simp add: risk_score_def risk_locals_def step_defs)

text \<open>The two worked examples of the specification.\<close>

lemma risk_example_extreme:
  "risk (Some \<lparr>current_main_temp = Number 5, current_main_humidity = Number 80,
                current_wind_speed = Number 12, aqi_list = [Number 4]\<rparr>) =
     \<lparr>level = Extreme, color = ''text-rose-600'', bgColor = ''bg-rose-50'',
      advice = [ADVICE_POOR_AIR, ADVICE_COLD, ADVICE_HUMIDITY, ADVICE_WIND],
      triggers = [''Poor Air Quality'', ''Cold Air'', ''High Humidity'',
                  ''High Wind (Allergens)'']\<rparr>"
  by (simp add: risk_def risk_locals_def step_defs current_aqi_def js_or_def)

lemma risk_example_moderate:
  "risk_score \<lparr>current_main_temp = Number 20, current_main_humidity = Number 50,
                current_wind_speed = Number 3, aqi_list = [Number 3]\<rparr> = 2
   \<and> level (risk (Some \<lparr>current_main_temp = Number 20, current_main_humidity = Number 50,
                current_wind_speed = Number 3, aqi_list = [Number 3]\<rparr>)) = Moderate"
  by (simp add: risk_level spec_level_def risk_score_sum current_aqi_def js_or_def step_defs)

text \<open>
  C1. For every snapshot (temperature, humidity, wind speed, AQI), held by a data object
  whose first AQI entry is that AQI, the score of \<open>risk\<close> is the sum of the deltas of the
  matched rows of the specification's table, the level is the table's level of that score,
  and triggers and advice are the labels and texts of the matched rows in table order; at
  score 0 they are the single entries ``None detected'' and the stable-conditions advice.
  A data object without an AQI entry is assessed as the snapshot with AQI 1. The
  specification's example (5 degrees, 80 percent, 12 m/s, AQI 4) scores 8 and is
  \<open>Extreme\<close> with its four triggers.
\<close>

theorem risk_follows_table:
  "(let d = \<lparr>current_main_temp = t, current_main_humidity = h, current_wind_speed = w,
             aqi_list = a # rest\<rparr>;
        s = \<lparr>temperatureC = t, humidityPct = h, windSpeedMps = w, airQualityIndex = a\<rparr>
    in risk_score d = spec_score s
       \<and> level (risk (Some d)) = spec_level (spec_score s)
       \<and> triggers (risk (Some d)) =
           (if spec_score s = 0 then [''None detected''] else spec_triggers s)
       \<and> advice (risk (Some d)) =
           (if spec_score s = 0 then [ADVICE_STABLE] else spec_advice s))
   \<and> (let d = \<lparr>current_main_temp = t, current_main_humidity = h, current_wind_speed = w,
                aqi_list = []\<rparr>;
           s = \<lparr>temperatureC = t, humidityPct = h, windSpeedMps = w,
                airQualityIndex = Number 1\<rparr>
       in risk_score d = spec_score s
          \<and> level (risk (Some d)) = spec_level (spec_score s)
          \<and> triggers (risk (Some d)) =
              (if spec_score s = 0 then [''None detected''] else spec_triggers s)
          \<and> advice (risk (Some d)) =
              (if spec_score s = 0 then [ADVICE_STABLE] else spec_advice s))
   \<and> risk_score \<lparr>current_main_temp = Number 5, current_main_humidity = Number 80,
                 current_wind_speed = Number 12, aqi_list = [Number 4]\<rparr> = 8
   \<and> risk (Some \<lparr>current_main_temp = Number 5, current_main_humidity = Number 80,
                  current_wind_speed = Number 12, aqi_list = [Number 4]\<rparr>) =
       \<lparr>level = Extreme, color = ''text-rose-600'', bgColor = ''bg-rose-50'',
        advice = [ADVICE_POOR_AIR, ADVICE_COLD, ADVICE_HUMIDITY, ADVICE_WIND],
        triggers = [''Poor Air Quality'', ''Cold Air'', ''High Humidity'',
                    ''High Wind (Allergens)'']\<rparr>"
proof -
  have gen: "risk_score d = spec_score (snapshot_of d)
       \<and> level (risk (Some d)) = spec_level (spec_score (snapshot_of d))
       \<and> triggers (risk (Some d)) =
           (if spec_score (snapshot_of d) = 0 then [''None detected'']
            else spec_triggers (snapshot_of d))
       \<and> advice (risk (Some d)) =
           (if spec_score (snapshot_of d) = 0 then [ADVICE_STABLE]
            else spec_advice (snapshot_of d))" for d
  proof -
    have s: "risk_score d = spec_score (snapshot_of d)"
      by (simp add: risk_score_def risk_locals_table)
    show ?thesis
      using s by (simp add: risk_Some risk_locals_table spec_level_def)
  qed
  have 1: "snapshot_of \<lparr>current_main_temp = t, current_main_humidity = h,
             current_wind_speed = w, aqi_list = a # rest\<rparr> =
           \<lparr>temperatureC = t, humidityPct = h, windSpeedMps = w, airQualityIndex = a\<rparr>"
    and 2: "snapshot_of \<lparr>current_main_temp = t, current_main_humidity = h,
             current_wind_speed = w, aqi_list = []\<rparr> =
           \<lparr>temperatureC = t, humidityPct = h, windSpeedMps = w,
            airQualityIndex = Number 1\<rparr>"
    by (simp_all add: snapshot_of_def)
  have 3: "risk_score \<lparr>current_main_temp = Number 5, current_main_humidity = Number 80,
                 current_wind_speed = Number 12, aqi_list = [Number 4]\<rparr> = 8"
    by (simp add: risk_score_sum current_aqi_def js_or_def step_defs)
  show ?thesis
    using gen [of "\<lparr>current_main_temp = t, current_main_humidity = h,
             current_wind_speed = w, aqi_list = a # rest\<rparr>"]
      gen [of "\<lparr>current_main_temp = t, current_main_humidity = h,
             current_wind_speed = w, aqi_list = []\<rparr>"]
      3 risk_example_extreme
    unfolding 1 2 Let_def by blast
qed

text \<open>Each trigger label is in the result exactly when its statement fired.\<close>

lemma trigger_poor_air:
  "''Poor Air Quality'' \<in> set (triggers (risk (Some d))) \<longleftrightarrow>
     js_ge (current_aqi d) (Number 4)"
  by (cases "current_aqi d"; cases "current_main_temp d"; cases "current_main_humidity d";
      cases "current_wind_speed d")
     (simp_all add: risk_Some risk_score_def risk_locals_def step_defs)

lemma trigger_moderate_air:
  "''Moderate Air Pollution'' \<in> set (triggers (risk (Some d))) \<longleftrightarrow>
     js_ge (current_aqi d) (Number 3) \<and> \<not> js_ge (current_aqi d) (Number 4)"
  by (cases "current_aqi d"; cases "current_main_temp d"; cases "current_main_humidity d";
      cases "current_wind_speed d")
     (simp_all add: risk_Some risk_score_def risk_locals_def step_defs)

lemma trigger_cold:
  "''Cold Air'' \<in> set (triggers (risk (Some d))) \<longleftrightarrow>
     js_lt (current_main_temp d) (Number 10)"
  by (cases "current_aqi d"; cases "current_main_temp d"; cases "current_main_humidity d";
      cases "current_wind_speed d")
     (simp_all add: risk_Some risk_score_def risk_locals_def step_defs)

lemma trigger_heat:
  "''Extreme Heat'' \<in> set (triggers (risk (Some d))) \<longleftrightarrow>
     js_gt (current_main_temp d) (Number 32) \<and> \<not> js_lt (current_main_temp d) (Number 10)"
  by (cases "current_aqi d"; cases "current_main_temp d"; cases "current_main_humidity d";
      cases "current_wind_speed d")
     (simp_all add: risk_Some risk_score_def risk_locals_def step_defs)

text \<open>
  C2. Boundary exactness. With AQI exactly 3 the score is 2 more than with no AQI
  contribution, ``Moderate Air Pollution'' is a trigger and ``Poor Air Quality'' is not;
  with AQI exactly 4 it is 3 more, with ``Poor Air Quality'' and without ``Moderate Air
  Pollution''. With temperature exactly 10, and exactly 32, neither ``Cold Air'' nor
  ``Extreme Heat'' is a trigger and the score is that of a temperate 20 degrees.
\<close>

theorem boundary_exactness:
  "(let d = \<lparr>current_main_temp = t, current_main_humidity = h, current_wind_speed = w,
             aqi_list = Number 3 # rest\<rparr>
    in risk_score d = risk_score (d\<lparr>aqi_list := []\<rparr>) + 2
       \<and> ''Moderate Air Pollution'' \<in> set (triggers (risk (Some d)))
       \<and> ''Poor Air Quality'' \<notin> set (triggers (risk (Some d))))
   \<and> (let d = \<lparr>current_main_temp = t, current_main_humidity = h, current_wind_speed = w,
                aqi_list = Number 4 # rest\<rparr>
      in risk_score d = risk_score (d\<lparr>aqi_list := []\<rparr>) + 3
         \<and> ''Poor Air Quality'' \<in> set (triggers (risk (Some d)))
         \<and> ''Moderate Air Pollution'' \<notin> set (triggers (risk (Some d))))
   \<and> (let d = \<lparr>current_main_temp = Number 10, current_main_humidity = h,
                current_wind_speed = w, aqi_list = as\<rparr>
      in risk_score d = risk_score (d\<lparr>current_main_temp := Number 20\<rparr>)
         \<and> ''Cold Air'' \<notin> set (triggers (risk (Some d)))
         \<and> ''Extreme Heat'' \<notin> set (triggers (risk (Some d))))
   \<and> (let d = \<lparr>current_main_temp = Number 32, current_main_humidity = h,
                current_wind_speed = w, aqi_list = as\<rparr>
      in risk_score d = risk_score (d\<lparr>current_main_temp := Number 20\<rparr>)
         \<and> ''Cold Air'' \<notin> set (triggers (risk (Some d)))
         \<and> ''Extreme Heat'' \<notin> set (triggers (risk (Some d))))"
  by (simp add: Let_def risk_score_sum trigger_poor_air trigger_moderate_air trigger_cold
      trigger_heat current_aqi_def js_or_def aqi_step_def temp_step_def)

text \<open>What one statement adds does not decrease when its reading increases.\<close>

lemma spec_level_mono: "m \<le> n \<Longrightarrow> level_rank (spec_level m) \<le> level_rank (spec_level n)"
  by (simp add: spec_level_def)

lemma aqi_points_mono:
  "js_le a b \<Longrightarrow>
   fst (aqi_step (js_or a (Number 1)) (0, [], []))
     \<le> fst (aqi_step (js_or b (Number 1)) (0, [], []))"
  by (cases a; cases b) (simp_all add: aqi_step_def js_or_def)

lemma humidity_points_mono:
  "js_le a b \<Longrightarrow> fst (humidity_step a (0, [], [])) \<le> fst (humidity_step b (0, [], []))"
  by (cases a; cases b) (simp_all add: humidity_step_def)

lemma wind_points_mono:
  "js_le a b \<Longrightarrow> fst (wind_step a (0, [], [])) \<le> fst (wind_step b (0, [], []))"
  by (cases a; cases b) (simp_all add: wind_step_def)

lemma temp_points_mono:
  "js_le t t' \<Longrightarrow> \<not> (js_lt t (Number 10) \<and> js_le (Number 10) t') \<Longrightarrow>
   fst (temp_step t (0, [], [])) \<le> fst (temp_step t' (0, [], []))"
  by (cases t; cases t') (auto simp: temp_step_def)

text \<open>Warming up from below 10 degrees to 10 or more loses points.\<close>

lemma temp_points_drop:
  "js_lt t (Number 10) \<Longrightarrow> js_le (Number 10) t' \<Longrightarrow>
   fst (temp_step t' (0, [], [])) < fst (temp_step t (0, [], []))"
  by (cases t; cases t') (auto simp: temp_step_def)

text \<open>
  C3, as amended. Holding the other readings fixed, the score and the level do not
  decrease when AQI, humidity or wind speed increases (so AQI 2 to 4 never lowers the
  level), nor when the temperature increases from \<open>t\<close> to \<open>t'\<close>, unless \<open>t < 10 \<le> t'\<close>.
  When the temperature rises from below 10 degrees to 10 or above, the 2 points of the
  cold rule are lost and the heat rule gives back at most 1, so the score strictly
  decreases and the level does not increase: the counterexample below is one such pair.
\<close>

theorem risk_monotone_except_cold:
  assumes ab: "js_le a b" and tt: "js_le t t'"
  shows "risk_score (d\<lparr>aqi_list := a # xs\<rparr>) \<le> risk_score (d\<lparr>aqi_list := b # ys\<rparr>)
       \<and> level_rank (level (risk (Some (d\<lparr>aqi_list := a # xs\<rparr>))))
           \<le> level_rank (level (risk (Some (d\<lparr>aqi_list := b # ys\<rparr>))))
       \<and> risk_score (d\<lparr>current_main_humidity := a\<rparr>)
           \<le> risk_score (d\<lparr>current_main_humidity := b\<rparr>)
       \<and> level_rank (level (risk (Some (d\<lparr>current_main_humidity := a\<rparr>))))
           \<le> level_rank (level (risk (Some (d\<lparr>current_main_humidity := b\<rparr>))))
       \<and> risk_score (d\<lparr>current_wind_speed := a\<rparr>)
           \<le> risk_score (d\<lparr>current_wind_speed := b\<rparr>)
       \<and> level_rank (level (risk (Some (d\<lparr>current_wind_speed := a\<rparr>))))
           \<le> level_rank (level (risk (Some (d\<lparr>current_wind_speed := b\<rparr>))))
       \<and> (if js_lt t (Number 10) \<and> js_le (Number 10) t'
          then risk_score (d\<lparr>current_main_temp := t'\<rparr>)
                 < risk_score (d\<lparr>current_main_temp := t\<rparr>)
               \<and> level_rank (level (risk (Some (d\<lparr>current_main_temp := t'\<rparr>))))
                   \<le> level_rank (level (risk (Some (d\<lparr>current_main_temp := t\<rparr>))))
          else risk_score (d\<lparr>current_main_temp := t\<rparr>)
                 \<le> risk_score (d\<lparr>current_main_temp := t'\<rparr>)
               \<and> level_rank (level (risk (Some (d\<lparr>current_main_temp := t\<rparr>))))
                   \<le> level_rank (level (risk (Some (d\<lparr>current_main_temp := t'\<rparr>)))))"
proof -
  have 1: "risk_score (d\<lparr>aqi_list := a # xs\<rparr>) \<le> risk_score (d\<lparr>aqi_list := b # ys\<rparr>)"
    using aqi_points_mono [OF ab] by (simp add: risk_score_sum current_aqi_def)
  have 2: "risk_score (d\<lparr>current_main_humidity := a\<rparr>)
             \<le> risk_score (d\<lparr>current_main_humidity := b\<rparr>)"
    using humidity_points_mono [OF ab] by (simp add: risk_score_sum current_aqi_def)
  have 3: "risk_score (d\<lparr>current_wind_speed := a\<rparr>)
             \<le> risk_score (d\<lparr>current_wind_speed := b\<rparr>)"
    using wind_points_mono [OF ab] by (simp add: risk_score_sum current_aqi_def)
  have 4: "risk_score (d\<lparr>current_main_temp := t\<rparr>)
             \<le> risk_score (d\<lparr>current_main_temp := t'\<rparr>)"
    if "\<not> (js_lt t (Number 10) \<and> js_le (Number 10) t')"
    using temp_points_mono [OF tt that] by (simp add: risk_score_sum current_aqi_def)
  have 5: "risk_score (d\<lparr>current_main_temp := t'\<rparr>)
             < risk_score (d\<lparr>current_main_temp := t\<rparr>)"
    if "js_lt t (Number 10)" "js_le (Number 10) t'"
    using temp_points_drop [OF that] by (simp add: risk_score_sum current_aqi_def)
  have aqi: "level_rank (level (risk (Some (d\<lparr>aqi_list := a # xs\<rparr>))))
           \<le> level_rank (level (risk (Some (d\<lparr>aqi_list := b # ys\<rparr>))))"
    using spec_level_mono [OF 1] by (simp only: risk_level)
  have hum: "level_rank (level (risk (Some (d\<lparr>current_main_humidity := a\<rparr>))))
           \<le> level_rank (level (risk (Some (d\<lparr>current_main_humidity := b\<rparr>))))"
    using spec_level_mono [OF 2] by (simp only: risk_level)
  have wind: "level_rank (level (risk (Some (d\<lparr>current_wind_speed := a\<rparr>))))
           \<le> level_rank (level (risk (Some (d\<lparr>current_wind_speed := b\<rparr>))))"
    using spec_level_mono [OF 3] by (simp only: risk_level)
  have temp: "level_rank (level (risk (Some (d\<lparr>current_main_temp := t\<rparr>))))
           \<le> level_rank (level (risk (Some (d\<lparr>current_main_temp := t'\<rparr>))))"
    if "\<not> (js_lt t (Number 10) \<and> js_le (Number 10) t')"
    using spec_level_mono [OF 4 [OF that]] by (simp only: risk_level)
  have drop: "level_rank (level (risk (Some (d\<lparr>current_main_temp := t'\<rparr>))))
           \<le> level_rank (level (risk (Some (d\<lparr>current_main_temp := t\<rparr>))))"
    if "js_lt t (Number 10)" "js_le (Number 10) t'"
    using spec_level_mono [OF less_imp_le [OF 5 [OF that]]] by (simp only: risk_level)
  show ?thesis
  proof (cases "js_lt t (Number 10) \<and> js_le (Number 10) t'")
    case True
    then show ?thesis
      using 1 2 3 5 aqi hum wind drop by simp
  next
    case False
    then show ?thesis
      using 1 2 3 4 aqi hum wind temp by simp
  qed
qed

theorem risk_monotone_except_cold_witness:
  "js_le (Number 2) (Number 4) \<and> js_le (Number 20) (Number 35)
   \<and> js_le (Number 5) (Number 8) \<and> js_le (Number 5) (Number 20)
   \<and> level_rank (level (risk (Some
        \<lparr>current_main_temp = Number 20, current_main_humidity = Number 50,
         current_wind_speed = Number 3, aqi_list = [Number 2]\<rparr>)))
       \<le> level_rank (level (risk (Some
        \<lparr>current_main_temp = Number 20, current_main_humidity = Number 50,
         current_wind_speed = Number 3, aqi_list = [Number 4]\<rparr>)))
   \<and> risk_score \<lparr>current_main_temp = Number 20, current_main_humidity = Number 50,
         current_wind_speed = Number 3, aqi_list = [Number 1]\<rparr>
       \<le> risk_score \<lparr>current_main_temp = Number 35, current_main_humidity = Number 50,
         current_wind_speed = Number 3, aqi_list = [Number 1]\<rparr>
   \<and> risk_score \<lparr>current_main_temp = Number 5, current_main_humidity = Number 50,
         current_wind_speed = Number 3, aqi_list = [Number 1]\<rparr>
       \<le> risk_score \<lparr>current_main_temp = Number 8, current_main_humidity = Number 50,
         current_wind_speed = Number 3, aqi_list = [Number 1]\<rparr>
   \<and> risk_score \<lparr>current_main_temp = Number 20, current_main_humidity = Number 50,
         current_wind_speed = Number 3, aqi_list = [Number 1]\<rparr>
       < risk_score \<lparr>current_main_temp = Number 5, current_main_humidity = Number 50,
         current_wind_speed = Number 3, aqi_list = [Number 1]\<rparr>"
proof -
  have ab: "js_le (Number 2) (Number 4)"
    and t1: "js_le (Number 20) (Number 35)"
    and t2: "js_le (Number 5) (Number 8)"
    and t3: "js_le (Number 5) (Number 20)"
    by simp_all
  let ?d = "\<lparr>current_main_temp = Number 20, current_main_humidity = Number 50,
             current_wind_speed = Number 3, aqi_list = [Number 1]\<rparr>"
  have 1: "level_rank (level (risk (Some
        \<lparr>current_main_temp = Number 20, current_main_humidity = Number 50,
         current_wind_speed = Number 3, aqi_list = [Number 2]\<rparr>)))
       \<le> level_rank (level (risk (Some
        \<lparr>current_main_temp = Number 20, current_main_humidity = Number 50,
         current_wind_speed = Number 3, aqi_list = [Number 4]\<rparr>)))"
    and 2: "risk_score \<lparr>current_main_temp = Number 20, current_main_humidity = Number 50,
         current_wind_speed = Number 3, aqi_list = [Number 1]\<rparr>
       \<le> risk_score \<lparr>current_main_temp = Number 35, current_main_humidity = Number 50,
         current_wind_speed = Number 3, aqi_list = [Number 1]\<rparr>"
    using risk_monotone_except_cold [OF ab t1, where d = ?d and xs = "[]" and ys = "[]"]
    by simp_all
  have 3: "risk_score \<lparr>current_main_temp = Number 5, current_main_humidity = Number 50,
         current_wind_speed = Number 3, aqi_list = [Number 1]\<rparr>
       \<le> risk_score \<lparr>current_main_temp = Number 8, current_main_humidity = Number 50,
         current_wind_speed = Number 3, aqi_list = [Number 1]\<rparr>"
    using risk_monotone_except_cold [OF ab t2, where d = ?d and xs = "[]" and ys = "[]"]
    by simp
  have 4: "risk_score \<lparr>current_main_temp = Number 20, current_main_humidity = Number 50,
         current_wind_speed = Number 3, aqi_list = [Number 1]\<rparr>
       < risk_score \<lparr>current_main_temp = Number 5, current_main_humidity = Number 50,
         current_wind_speed = Number 3, aqi_list = [Number 1]\<rparr>"
    using risk_monotone_except_cold [OF ab t3, where d = ?d and xs = "[]" and ys = "[]"]
    by simp
  show ?thesis
    using ab t1 t2 t3 1 2 3 4 by blast
qed

theorem temperature_not_monotone:
  "js_le (Number 5) (Number 20)
   \<and> risk_score \<lparr>current_main_temp = Number 5, current_main_humidity = Number 50,
                 current_wind_speed = Number 3, aqi_list = [Number 1]\<rparr> = 2
   \<and> risk_score \<lparr>current_main_temp = Number 20, current_main_humidity = Number 50,
                 current_wind_speed = Number 3, aqi_list = [Number 1]\<rparr> = 0
   \<and> level (risk (Some \<lparr>current_main_temp = Number 5, current_main_humidity = Number 50,
                 current_wind_speed = Number 3, aqi_list = [Number 1]\<rparr>)) = Moderate
   \<and> level (risk (Some \<lparr>current_main_temp = Number 20, current_main_humidity = Number 50,
                 current_wind_speed = Number 3, aqi_list = [Number 1]\<rparr>)) = Low"
  by (simp add: risk_level spec_level_def risk_score_sum current_aqi_def js_or_def step_defs)

text \<open>
  C4. For every data object, triggers and advice of the assessment have the same length;
  score 0, level \<open>Low\<close> and triggers equal to the single ``None detected'' are equivalent;
  at score 0 both lists are the single stable entry, and otherwise they are the lists the
  statements pushed, of equal and positive length.
\<close>

theorem risk_invariants:
  "length (triggers (risk (Some d))) = length (advice (risk (Some d)))
   \<and> (risk_score d = 0) = (level (risk (Some d)) = Low)
   \<and> (level (risk (Some d)) = Low) = (triggers (risk (Some d)) = [''None detected''])
   \<and> (if risk_score d = 0
      then triggers (risk (Some d)) = [''None detected'']
           \<and> advice (risk (Some d)) = [ADVICE_STABLE]
      else triggers (risk (Some d)) = snd (snd (risk_locals d))
           \<and> advice (risk (Some d)) = fst (snd (risk_locals d))
           \<and> length (snd (snd (risk_locals d))) = length (fst (snd (risk_locals d)))
           \<and> 0 < length (snd (snd (risk_locals d))))"
  by (cases "current_aqi d"; cases "current_main_temp d"; cases "current_main_humidity d";
      cases "current_wind_speed d")
     (simp_all add: risk_Some risk_score_def risk_locals_def step_defs)

text \<open>
  C10. Without data (\<open>data\<close> is \<open>null\<close>) the assessment is \<open>Low\<close> with empty triggers and
  empty advice: not the ``None detected'' entry of a zero-score snapshot, and not the
  assessment of any data object.
\<close>

theorem risk_without_data:
  "risk None = \<lparr>level = Low, color = ''text-emerald-500'', bgColor = ''bg-emerald-50'',
                advice = [], triggers = []\<rparr>
   \<and> triggers (risk None) \<noteq> [''None detected'']
   \<and> length (triggers (risk None)) = 0 \<and> length (advice (risk None)) = 0
   \<and> risk None \<noteq> risk (Some d)"
proof -
  have "triggers (risk (Some d)) \<noteq> []"
    by (cases "current_aqi d"; cases "current_main_temp d"; cases "current_main_humidity d";
        cases "current_wind_speed d")
       (simp_all add: risk_Some risk_score_def risk_locals_def step_defs)
  moreover have "triggers (risk None) = []"
    by (simp add: risk_def)
  ultimately have "risk None \<noteq> risk (Some d)"
    by metis
  then show ?thesis
    by (simp add: risk_def)
qed

section \<open>Properties of the subscription store and the routes\<close>

lemmas regex_defs = emailRegex_test_def str_def not_space_at_def is_space_def at_end_def

text \<open>
  The matcher accepts exactly the strings the pattern describes: a non-empty run of
  \<open>[^\s@]\<close>, an \<open>@\<close>, a non-empty run, a dot, and a non-empty run up to the end.
\<close>

lemma plus_then_iff:
  "plus_then cls k s \<longleftrightarrow> (\<exists>u v. s = u @ v \<and> u \<noteq> [] \<and> list_all cls u \<and> k v)"
proof (induction s)
  case Nil
  then show ?case by simp
next
  case (Cons c cs)
  show ?case
  proof
    assume "plus_then cls k (c # cs)"
    then have c: "cls c" and d: "k cs \<or> plus_then cls k cs" by simp_all
    from d show "\<exists>u v. c # cs = u @ v \<and> u \<noteq> [] \<and> list_all cls u \<and> k v"
    proof
      assume "k cs"
      with c have "c # cs = [c] @ cs \<and> [c] \<noteq> [] \<and> list_all cls [c] \<and> k cs" by simp
      then show ?thesis by blast
    next
      assume "plus_then cls k cs"
      with Cons.IH obtain u v where "cs = u @ v" "u \<noteq> []" "list_all cls u" "k v" by blast
      with c have "c # cs = (c # u) @ v \<and> c # u \<noteq> [] \<and> list_all cls (c # u) \<and> k v" by simp
      then show ?thesis by blast
    qed
  next
    assume "\<exists>u v. c # cs = u @ v \<and> u \<noteq> [] \<and> list_all cls u \<and> k v"
    then obtain u v where uv: "c # cs = u @ v" "u \<noteq> []" "list_all cls u" "k v" by blast
    then obtain u' where u: "u = c # u'" by (cases u) auto
    with uv have c: "cls c" and cs: "cs = u' @ v" and u': "list_all cls u'" by simp_all
    show "plus_then cls k (c # cs)"
    proof (cases "u' = []")
      case True
      with cs uv c show ?thesis by simp
    next
      case False
      with cs u' uv(4) Cons.IH have "plus_then cls k cs" by blast
      with c show ?thesis by simp
    qed
  qed
qed

lemma lit_then_iff: "lit_then x k s \<longleftrightarrow> (\<exists>v. s = x # v \<and> k v)"
  by (cases s) auto

lemma emailRegex_test_iff:
  "emailRegex_test s \<longleftrightarrow>
     (\<exists>l d t. s = l @ [64] @ d @ [46] @ t \<and> l \<noteq> [] \<and> d \<noteq> [] \<and> t \<noteq> []
        \<and> list_all not_space_at l \<and> list_all not_space_at d \<and> list_all not_space_at t)"
  unfolding emailRegex_test_def plus_then_iff lit_then_iff at_end_def
  by (auto; blast)

lemma valid_example: "emailRegex_test (str ''a@b.co'')"
  by (simp add: regex_defs)

lemma valid_example_upper: "emailRegex_test (str ''A@b.co'')"
  by (simp add: regex_defs)

lemma emailRegex_test_nonempty: "emailRegex_test e \<Longrightarrow> e \<noteq> []"
  by (auto simp: emailRegex_test_def)

lemma post_notify_valid:
  "emailRegex_test e \<Longrightarrow> toEmail b = Some e \<Longrightarrow> post_notify w b = notify_valid w b e"
  by (auto simp: post_notify_def dest: emailRegex_test_nonempty)

lemma db_upsert:
  "POSTGRES_URL w \<or> localDb w \<Longrightarrow> \<not> driver_throws w \<Longrightarrow>
   upsertSubscription w e a = Inr (w\<lparr>subscriptions := sql_upsert (subscriptions w) e a\<rparr>)"
  by (auto simp: upsertSubscription_def)

lemma db_delete:
  "POSTGRES_URL w \<or> localDb w \<Longrightarrow> \<not> driver_throws w \<Longrightarrow>
   deleteSubscription w e = Inr (w\<lparr>subscriptions := sql_delete (subscriptions w) e\<rparr>)"
  by (auto simp: deleteSubscription_def)

lemmas surrogate_defs = is_high_surrogate_def is_low_surrogate_def

text \<open>A string without surrogates is stored as it is.\<close>

lemma stored_text_plain:
  "list_all (\<lambda>c. \<not> is_high_surrogate c \<and> \<not> is_low_surrogate c) s \<Longrightarrow> stored_text s = s"
  by (induction s rule: stored_text.induct) simp_all

lemma stored_example: "stored_text (str ''a@b.co'') = str ''a@b.co''"
  by (simp add: str_def surrogate_defs)

lemma stored_example_upper: "stored_text (str ''A@b.co'') = str ''A@b.co''"
  by (simp add: str_def surrogate_defs)

text \<open>An unpaired surrogate is stored as U+FFFD, so two different strings can share a row.\<close>

lemma stored_example_unpaired:
  "stored_text (55296 # str ''@b.co'') = 65533 # str ''@b.co''
   \<and> stored_text (65533 # str ''@b.co'') = 65533 # str ''@b.co''"
  by (simp add: str_def surrogate_defs)

text \<open>
  C5, as amended. No route lower-cases or otherwise normalises an email: the string goes
  to the database as it arrives, and the key is its stored text. With a database in use
  and answering, a notify that saves the subscription for \<open>e\<close>, and an unsubscribe of
  \<open>e\<close>, change the status reported for exactly the strings with the stored text of \<open>e\<close>;
  among strings without surrogates that is \<open>e\<close> itself and no other. Two spellings of one
  address that differ in letter case are two keys: the counterexample below.
\<close>

theorem email_key_verbatim:
  assumes "POSTGRES_URL w \<or> localDb w" and "\<not> driver_throws w"
  shows "(emailRegex_test e \<and> toEmail b = Some e \<and> saveEmail b \<longrightarrow>
            get_subscription (snd (post_notify w b)) e' =
              (if stored_text e' = stored_text e
               then \<lparr>status = 200, body = Subscription_json True (autoNotify b) None\<rparr>
               else get_subscription w e'))
       \<and> get_subscription (snd (post_unsubscribe w e)) e' =
           (if stored_text e' = stored_text e
            then \<lparr>status = 200, body = Subscription_json False False None\<rparr>
            else get_subscription w e')
       \<and> (list_all (\<lambda>c. \<not> is_high_surrogate c \<and> \<not> is_low_surrogate c) e
          \<and> list_all (\<lambda>c. \<not> is_high_surrogate c \<and> \<not> is_low_surrogate c) e' \<longrightarrow>
            (stored_text e' = stored_text e) = (e' = e))"
proof -
  have 1: "get_subscription (snd (post_notify w b)) e' =
              (if stored_text e' = stored_text e
               then \<lparr>status = 200, body = Subscription_json True (autoNotify b) None\<rparr>
               else get_subscription w e')"
    if v: "emailRegex_test e" "toEmail b = Some e" "saveEmail b"
  proof -
    have up: "snd (post_notify w b) =
        (let w1 = w\<lparr>subscriptions := sql_upsert (subscriptions w) e (autoNotify b)\<rparr>
         in if resend w then w1\<lparr>outbox := outbox w @
                [\<lparr>mail_from = fromEmail w1, mail_to = [e], mail_subject = subject b,
                  mail_html = message b\<rparr>]\<rparr> else w1)"
      using assms v
      by (simp add: post_notify_valid notify_valid_def db_upsert Let_def
          split: send_result.splits)
    show ?thesis
      using assms
      by (auto simp: up Let_def get_subscription_def getSubscription_def sql_upsert_def
          sql_select_def split: option.splits)
  qed
  have 2: "get_subscription (snd (post_unsubscribe w e)) e' =
           (if stored_text e' = stored_text e
            then \<lparr>status = 200, body = Subscription_json False False None\<rparr>
            else get_subscription w e')"
    using assms
    by (auto simp: post_unsubscribe_def db_delete get_subscription_def getSubscription_def
        sql_delete_def sql_select_def)
  have 3: "(stored_text e' = stored_text e) = (e' = e)"
    if "list_all (\<lambda>c. \<not> is_high_surrogate c \<and> \<not> is_low_surrogate c) e"
      and "list_all (\<lambda>c. \<not> is_high_surrogate c \<and> \<not> is_low_surrogate c) e'"
    using that by (simp add: stored_text_plain)
  show ?thesis
    using 1 2 3 by blast
qed

theorem email_key_verbatim_witness:
  "(POSTGRES_URL sqlite_world \<or> localDb sqlite_world) \<and> \<not> driver_throws sqlite_world
   \<and> emailRegex_test (str ''A@b.co'')
   \<and> list_all (\<lambda>c. \<not> is_high_surrogate c \<and> \<not> is_low_surrogate c) (str ''A@b.co'')
   \<and> list_all (\<lambda>c. \<not> is_high_surrogate c \<and> \<not> is_low_surrogate c) (str ''a@b.co'')
   \<and> get_subscription
       (snd (post_notify sqlite_world
          \<lparr>message = [], subject = [], toEmail = Some (str ''A@b.co''), saveEmail = True,
           autoNotify = True\<rparr>)) (str ''A@b.co'')
       = \<lparr>status = 200, body = Subscription_json True True None\<rparr>
   \<and> get_subscription
       (snd (post_notify sqlite_world
          \<lparr>message = [], subject = [], toEmail = Some (str ''A@b.co''), saveEmail = True,
           autoNotify = True\<rparr>)) (str ''a@b.co'')
       = get_subscription sqlite_world (str ''a@b.co'')
   \<and> get_subscription (snd (post_unsubscribe sqlite_world (str ''A@b.co''))) (str ''A@b.co'')
       = \<lparr>status = 200, body = Subscription_json False False None\<rparr>
   \<and> stored_text (str ''a@b.co'') \<noteq> stored_text (str ''A@b.co'')"
proof -
  have h: "POSTGRES_URL sqlite_world \<or> localDb sqlite_world" "\<not> driver_throws sqlite_world"
    by (simp_all add: sqlite_world_def)
  have v: "emailRegex_test (str ''A@b.co'')"
    by (simp add: regex_defs)
  have p: "list_all (\<lambda>c. \<not> is_high_surrogate c \<and> \<not> is_low_surrogate c) (str ''A@b.co'')"
    "list_all (\<lambda>c. \<not> is_high_surrogate c \<and> \<not> is_low_surrogate c) (str ''a@b.co'')"
    by (simp_all add: str_def surrogate_defs)
  have ne: "str ''a@b.co'' \<noteq> str ''A@b.co''"
    by (simp add: str_def)
  let ?b = "\<lparr>message = [], subject = [], toEmail = Some (str ''A@b.co''), saveEmail = True,
           autoNotify = True\<rparr>"
  have b: "toEmail ?b = Some (str ''A@b.co'')" "saveEmail ?b" "autoNotify ?b"
    by simp_all
  note same = email_key_verbatim [OF h, where b = ?b and e = "str ''A@b.co''"
      and e' = "str ''A@b.co''"]
  note other = email_key_verbatim [OF h, where b = ?b and e = "str ''A@b.co''"
      and e' = "str ''a@b.co''"]
  have s: "stored_text (str ''a@b.co'') \<noteq> stored_text (str ''A@b.co'')"
    using other p ne by blast
  have 1: "get_subscription (snd (post_notify sqlite_world ?b)) (str ''A@b.co'')
       = \<lparr>status = 200, body = Subscription_json True True None\<rparr>"
    using same v b by simp
  have 2: "get_subscription (snd (post_notify sqlite_world ?b)) (str ''a@b.co'')
       = get_subscription sqlite_world (str ''a@b.co'')"
    using other v b s by simp
  have 3: "get_subscription (snd (post_unsubscribe sqlite_world (str ''A@b.co'')))
             (str ''A@b.co'')
       = \<lparr>status = 200, body = Subscription_json False False None\<rparr>"
    using same by simp
  show ?thesis
    using h v p 1 2 3 s by blast
qed

theorem email_case_counterexample:
  "snd (post_notify sqlite_world
          \<lparr>message = [], subject = [], toEmail = Some (str ''A@b.co''), saveEmail = True,
           autoNotify = True\<rparr>)
     = sqlite_world\<lparr>subscriptions :=
         [str ''A@b.co'' \<mapsto> \<lparr>auto_notify = True, last_notified_at = None\<rparr>]\<rparr>
   \<and> get_subscription
       (sqlite_world\<lparr>subscriptions :=
          [str ''A@b.co'' \<mapsto> \<lparr>auto_notify = True, last_notified_at = None\<rparr>]\<rparr>)
       (str ''a@b.co'')
     = \<lparr>status = 200, body = Subscription_json False False None\<rparr>
   \<and> get_subscription
       (sqlite_world\<lparr>subscriptions :=
          [str ''A@b.co'' \<mapsto> \<lparr>auto_notify = True, last_notified_at = None\<rparr>]\<rparr>)
       (str ''A@b.co'')
     = \<lparr>status = 200, body = Subscription_json True True None\<rparr>"
proof -
  have ne: "str ''a@b.co'' \<noteq> str ''A@b.co''"
    by (simp add: str_def)
  have 1: "snd (post_notify sqlite_world
          \<lparr>message = [], subject = [], toEmail = Some (str ''A@b.co''), saveEmail = True,
           autoNotify = True\<rparr>)
     = sqlite_world\<lparr>subscriptions :=
         [str ''A@b.co'' \<mapsto> \<lparr>auto_notify = True, last_notified_at = None\<rparr>]\<rparr>"
    by (simp add: post_notify_valid [OF valid_example_upper] notify_valid_def
        upsertSubscription_def sql_upsert_def stored_example_upper sqlite_world_def)
  have 2: "get_subscription
       (sqlite_world\<lparr>subscriptions :=
          [str ''A@b.co'' \<mapsto> \<lparr>auto_notify = True, last_notified_at = None\<rparr>]\<rparr>)
       (str ''a@b.co'')
     = \<lparr>status = 200, body = Subscription_json False False None\<rparr>"
    using ne
    by (simp add: get_subscription_def getSubscription_def sql_select_def stored_example
        sqlite_world_def)
  have 3: "get_subscription
       (sqlite_world\<lparr>subscriptions :=
          [str ''A@b.co'' \<mapsto> \<lparr>auto_notify = True, last_notified_at = None\<rparr>]\<rparr>)
       (str ''A@b.co'')
     = \<lparr>status = 200, body = Subscription_json True True None\<rparr>"
    by (simp add: get_subscription_def getSubscription_def sql_select_def
        stored_example_upper sqlite_world_def)
  show ?thesis
    using 1 2 3 by blast
qed

text \<open>
  C6. A notify request whose \<open>toEmail\<close> is absent or does not match the email pattern is
  answered 400 with the invalid-email message, and the state is unchanged: no row is
  written and nothing is handed to the mail provider.
\<close>

theorem notify_invalid_email:
  assumes "case toEmail b of None \<Rightarrow> True | Some e \<Rightarrow> \<not> emailRegex_test e"
  shows "post_notify w b =
           (\<lparr>status = 400, body = Error_json (str ''Please provide a valid email address.'')\<rparr>, w)"
  using assms by (simp add: post_notify_def split: option.splits)

theorem notify_invalid_email_witness:
  "\<not> emailRegex_test (str ''not-an-email'')
   \<and> post_notify sqlite_world
       \<lparr>message = [], subject = [], toEmail = Some (str ''not-an-email''), saveEmail = True,
        autoNotify = True\<rparr>
     = (\<lparr>status = 400, body = Error_json (str ''Please provide a valid email address.'')\<rparr>,
        sqlite_world)
   \<and> post_notify sqlite_world
       \<lparr>message = [], subject = [], toEmail = None, saveEmail = True, autoNotify = True\<rparr>
     = (\<lparr>status = 400, body = Error_json (str ''Please provide a valid email address.'')\<rparr>,
        sqlite_world)"
proof -
  have h: "\<not> emailRegex_test (str ''not-an-email'')"
    by (simp add: regex_defs)
  show ?thesis
    using h
      notify_invalid_email [where w = sqlite_world and b = "\<lparr>message = [], subject = [],
        toEmail = Some (str ''not-an-email''), saveEmail = True, autoNotify = True\<rparr>"]
      notify_invalid_email [where w = sqlite_world and b = "\<lparr>message = [], subject = [],
        toEmail = None, saveEmail = True, autoNotify = True\<rparr>"]
    by simp
qed




text \<open>
  C8, as amended. Unsubscribing an email that has no row leaves the state as it was, and
  is answered 200 with success whenever the \<open>DELETE\<close> statement completes (always when no
  database is in use, where no statement is sent); a second unsubscribe is then answered
  in the same way. When a database is in use and the driver throws, the route answers
  500 ``Database error'': the counterexample below.
\<close>

theorem unsubscribe_idempotent:
  assumes "sql_select (subscriptions w) e = None"
  shows "post_unsubscribe w e =
           (if (POSTGRES_URL w \<or> localDb w) \<and> driver_throws w
            then \<lparr>status = 500, body = Error_json (str ''Database error'')\<rparr>
            else \<lparr>status = 200,
                  body = Success_message_json (str ''Unsubscribed successfully'') False\<rparr>,
            w)
       \<and> post_unsubscribe (snd (post_unsubscribe w e)) e = post_unsubscribe w e"
proof -
  have "sql_delete (subscriptions w) e = subscriptions w"
    using assms by (simp add: sql_delete_def sql_select_def fun_upd_idem)
  then have "post_unsubscribe w e =
           (if (POSTGRES_URL w \<or> localDb w) \<and> driver_throws w
            then \<lparr>status = 500, body = Error_json (str ''Database error'')\<rparr>
            else \<lparr>status = 200,
                  body = Success_message_json (str ''Unsubscribed successfully'') False\<rparr>,
            w)"
    by (simp add: post_unsubscribe_def deleteSubscription_def)
  then show ?thesis
    by simp
qed

theorem unsubscribe_idempotent_witness:
  "sql_select (subscriptions sqlite_world) (str ''a@b.co'') = None
   \<and> post_unsubscribe sqlite_world (str ''a@b.co'') =
       (\<lparr>status = 200, body = Success_message_json (str ''Unsubscribed successfully'') False\<rparr>,
        sqlite_world)
   \<and> post_unsubscribe (snd (post_unsubscribe sqlite_world (str ''a@b.co''))) (str ''a@b.co'') =
       (\<lparr>status = 200, body = Success_message_json (str ''Unsubscribed successfully'') False\<rparr>,
        sqlite_world)"
proof -
  have h: "sql_select (subscriptions sqlite_world) (str ''a@b.co'') = None"
    by (simp add: sql_select_def sqlite_world_def)
  have d: "\<not> driver_throws sqlite_world"
    by (simp add: sqlite_world_def)
  show ?thesis
    using h d unsubscribe_idempotent [OF h] by simp
qed

theorem unsubscribe_driver_failure:
  "sql_select (subscriptions (sqlite_world\<lparr>driver_throws := True\<rparr>)) (str ''a@b.co'') = None
   \<and> post_unsubscribe (sqlite_world\<lparr>driver_throws := True\<rparr>) (str ''a@b.co'') =
       (\<lparr>status = 500, body = Error_json (str ''Database error'')\<rparr>,
        sqlite_world\<lparr>driver_throws := True\<rparr>)"
  by (simp add: sql_select_def post_unsubscribe_def deleteSubscription_def sqlite_world_def)

text \<open>
  C9. A notify request with a valid email, when the mail client is not configured, is
  answered 200 with \<open>success: true\<close> and \<open>simulated: true\<close>, never an error; nothing is
  handed to the mail provider; and the state is that after the upsert when \<open>saveEmail\<close>
  is set (with a database in use and answering, the row of the email then carries the
  requested \<open>autoNotify\<close>).
\<close>

theorem notify_simulated:
  assumes "emailRegex_test e" and "toEmail b = Some e" and "\<not> resend w"
  shows "fst (post_notify w b) =
           \<lparr>status = 200,
            body = Success_message_json
                     (str ''Notification simulated (RESEND_API_KEY missing)'') True\<rparr>
       \<and> snd (post_notify w b) =
           (if saveEmail b then
              (case upsertSubscription w e (autoNotify b) of Inr w' \<Rightarrow> w' | Inl err \<Rightarrow> w)
            else w)
       \<and> outbox (snd (post_notify w b)) = outbox w
       \<and> (saveEmail b \<and> (POSTGRES_URL w \<or> localDb w) \<and> \<not> driver_throws w \<longrightarrow>
            (\<exists>row. sql_select (subscriptions (snd (post_notify w b))) e = Some row
                   \<and> auto_notify row = autoNotify b))"
proof -
  have r: "resend (case upsertSubscription w e (autoNotify b) of Inr w' \<Rightarrow> w' | Inl err \<Rightarrow> w) = resend w"
    and o: "outbox (case upsertSubscription w e (autoNotify b) of Inr w' \<Rightarrow> w' | Inl err \<Rightarrow> w) = outbox w"
    by (simp_all add: upsertSubscription_def)
  have n: "post_notify w b =
      (\<lparr>status = 200,
            body = Success_message_json
                     (str ''Notification simulated (RESEND_API_KEY missing)'') True\<rparr>,
       if saveEmail b then
              (case upsertSubscription w e (autoNotify b) of Inr w' \<Rightarrow> w' | Inl err \<Rightarrow> w)
            else w)"
    using assms r by (simp add: post_notify_valid notify_valid_def Let_def)
  show ?thesis
    using o by (auto simp: n db_upsert sql_upsert_def sql_select_def split: option.splits)
qed

theorem notify_simulated_witness:
  "emailRegex_test (str ''a@b.co'') \<and> \<not> resend sqlite_world
   \<and> fst (post_notify sqlite_world
        \<lparr>message = [], subject = [], toEmail = Some (str ''a@b.co''), saveEmail = True,
         autoNotify = True\<rparr>) =
       \<lparr>status = 200,
        body = Success_message_json
                 (str ''Notification simulated (RESEND_API_KEY missing)'') True\<rparr>
   \<and> outbox (snd (post_notify sqlite_world
        \<lparr>message = [], subject = [], toEmail = Some (str ''a@b.co''), saveEmail = True,
         autoNotify = True\<rparr>)) = []
   \<and> (\<exists>row. sql_select (subscriptions (snd (post_notify sqlite_world
        \<lparr>message = [], subject = [], toEmail = Some (str ''a@b.co''), saveEmail = True,
         autoNotify = True\<rparr>))) (str ''a@b.co'') = Some row \<and> auto_notify row)"
proof -
  have v: "emailRegex_test (str ''a@b.co'')"
    by (simp add: regex_defs)
  have r: "\<not> resend sqlite_world" and o: "outbox sqlite_world = []"
    and d: "localDb sqlite_world" "\<not> driver_throws sqlite_world"
    by (simp_all add: sqlite_world_def)
  let ?b = "\<lparr>message = [], subject = [], toEmail = Some (str ''a@b.co''), saveEmail = True,
         autoNotify = True\<rparr>"
  have t: "toEmail ?b = Some (str ''a@b.co'')" by simp
  note th = notify_simulated [OF v t r]
  have 1: "fst (post_notify sqlite_world ?b) =
       \<lparr>status = 200,
        body = Success_message_json
                 (str ''Notification simulated (RESEND_API_KEY missing)'') True\<rparr>"
    using th by blast
  have 2: "outbox (snd (post_notify sqlite_world ?b)) = []"
    using th o by metis
  have 3: "\<exists>row. sql_select (subscriptions (snd (post_notify sqlite_world ?b)))
                   (str ''a@b.co'') = Some row
            \<and> auto_notify row"
  proof -
    have "saveEmail ?b \<and> (POSTGRES_URL sqlite_world \<or> localDb sqlite_world)
          \<and> \<not> driver_throws sqlite_world"
      using d by simp
    with th have "\<exists>row. sql_select (subscriptions (snd (post_notify sqlite_world ?b)))
                   (str ''a@b.co'') = Some row
            \<and> auto_notify row = autoNotify ?b"
      by blast
    then show ?thesis by simp
  qed
  show ?thesis
    using v r 1 2 3 by blast
qed

end
